theory Spec2Isabelle
  imports Main
begin

section \<open>Python strings\<close>

text \<open>
  A Python \<open>str\<close> is a sequence of Unicode code points, so a string of the program is a
  list of natural numbers here. ASCII literals are written \<open>u ''...''\<close>.
\<close>

type_synonym pystr = "nat list"

abbreviation (input) u :: "string \<Rightarrow> pystr" where
  "u s \<equiv> map of_char s"

text \<open>
  \<open>str.isspace\<close> on one code point. \<open>str.strip()\<close> and the regular expression class
  \<open>\S\<close> of a \<open>str\<close> pattern both use this set.
\<close>

definition isspace :: "nat \<Rightarrow> bool" where
  "isspace c \<longleftrightarrow>
     (9 \<le> c \<and> c \<le> 13) \<or> (28 \<le> c \<and> c \<le> 32) \<or> c = 133 \<or> c = 160 \<or> c = 5760 \<or>
     (8192 \<le> c \<and> c \<le> 8202) \<or> c = 8232 \<or> c = 8233 \<or> c = 8239 \<or> c = 8287 \<or> c = 12288"

definition strip :: "pystr \<Rightarrow> pystr" where
  "strip s = rev (dropWhile isspace (rev (dropWhile isspace s)))"

text \<open>\<open>s.startswith(p)\<close>, with the comparison of two code points as a parameter.\<close>

fun match_prefix :: "(nat \<Rightarrow> nat \<Rightarrow> bool) \<Rightarrow> pystr \<Rightarrow> pystr \<Rightarrow> bool" where
  "match_prefix eq [] s = True"
| "match_prefix eq (p # ps) [] = False"
| "match_prefix eq (p # ps) (c # cs) = (eq p c \<and> match_prefix eq ps cs)"

text \<open>\<open>sep in s\<close> for a non-empty separator \<open>p # ps\<close>.\<close>

fun contains :: "nat \<Rightarrow> pystr \<Rightarrow> pystr \<Rightarrow> bool" where
  "contains p ps [] = False"
| "contains p ps (c # cs) = ((p = c \<and> match_prefix (=) ps cs) \<or> contains p ps cs)"

text \<open>
  Splitting on a non-empty separator \<open>p # ps\<close>, scanning from the left and resuming
  after each match, as both \<open>str.split(sep)\<close> and \<open>re.split\<close> of a literal pattern do.
  \<open>acc\<close> holds the current piece, reversed.
\<close>

fun split_on :: "(nat \<Rightarrow> nat \<Rightarrow> bool) \<Rightarrow> nat \<Rightarrow> pystr \<Rightarrow> pystr \<Rightarrow> pystr \<Rightarrow> pystr list" where
  "split_on eq p ps acc [] = [rev acc]"
| "split_on eq p ps acc (c # cs) =
     (if eq p c \<and> match_prefix eq ps cs
      then rev acc # split_on eq p ps [] (drop (length ps) cs)
      else split_on eq p ps (c # acc) cs)"

text \<open>
  Case-insensitive comparison of a pattern character with a text character under
  \<open>re.IGNORECASE\<close>. The pattern \<open><page>\<close> has the letters p, a, g, e only, and the
  only code points that match them are their ASCII upper and lower case forms.
\<close>

definition ascii_lower :: "nat \<Rightarrow> nat" where
  "ascii_lower c = (if 65 \<le> c \<and> c \<le> 90 then c + 32 else c)"

definition eq_ignorecase :: "nat \<Rightarrow> nat \<Rightarrow> bool" where
  "eq_ignorecase p c \<longleftrightarrow> ascii_lower p = ascii_lower c"

section \<open>Outline parser (backend/services/outline.py)\<close>

text \<open>The dictionary \<open>{"index": .., "type": .., "content": ..}\<close> of one parsed page.\<close>

record page =
  p_index :: nat
  p_type :: pystr
  p_content :: pystr

text \<open>
  \<open>re.match(r"\[(\S+)\]", page_text)\<close>, returning group 1: an opening bracket, the
  longest run of non-space characters that still leaves a closing bracket, and that
  closing bracket. The run is greedy, so group 1 ends before the last \<open>]\<close> of the
  maximal non-space run, and it is not empty.
\<close>

definition type_match :: "pystr \<Rightarrow> pystr option" where
  "type_match page_text =
     (case page_text of
        [] \<Rightarrow> None
      | c # rest \<Rightarrow>
          if c \<noteq> 91 then None
          else (case dropWhile (\<lambda>x. x \<noteq> 93) (rev (takeWhile (\<lambda>x. \<not> isspace x) rest)) of
                  [] \<Rightarrow> None
                | _ # g \<Rightarrow> if g = [] then None else Some (rev g)))"

text \<open>The \<open>type_mapping\<close> dictionary: the tags for cover, content and summary.\<close>

definition type_mapping :: "(pystr \<times> pystr) list" where
  "type_mapping =
     [([23553, 38754], u ''cover''),
      ([20869, 23481], u ''content''),
      ([24635, 32467], u ''summary'')]"

definition page_type_of :: "pystr \<Rightarrow> pystr" where
  "page_type_of page_text =
     (case type_match page_text of
        None \<Rightarrow> u ''content''
      | Some type_cn \<Rightarrow>
          (case map_of type_mapping type_cn of None \<Rightarrow> u ''content'' | Some t \<Rightarrow> t))"

text \<open>
  The choice of the separator: \<open>'<page>' in outline_text\<close> is an exact substring test,
  then \<open>re.split(r'<page>', .., flags=re.IGNORECASE)\<close>; otherwise
  \<open>outline_text.split("---")\<close>.
\<close>

definition pages_raw :: "pystr \<Rightarrow> pystr list" where
  "pages_raw outline_text =
     (if contains 60 (u ''page>'') outline_text
      then split_on eq_ignorecase 60 (u ''page>'') [] outline_text
      else split_on (=) 45 (u ''--'') [] outline_text)"

text \<open>
  The loop \<open>for index, page_text in enumerate(pages_raw)\<close>: \<open>index\<close> is the position of
  the segment in \<open>pages_raw\<close>; a segment that is empty after \<open>strip()\<close> is skipped by
  \<open>continue\<close>.
\<close>

fun parse_loop :: "nat \<Rightarrow> pystr list \<Rightarrow> page list" where
  "parse_loop index [] = []"
| "parse_loop index (page_text # rest) =
     (let page_text = strip page_text in
      if page_text = [] then parse_loop (Suc index) rest
      else \<lparr>p_index = index, p_type = page_type_of page_text, p_content = page_text\<rparr>
             # parse_loop (Suc index) rest)"

definition parse_outline :: "pystr \<Rightarrow> page list" where
  "parse_outline outline_text = parse_loop 0 (pages_raw outline_text)"

section \<open>Image-directory scan (backend/services/history.py)\<close>

subsection \<open>The built-in \<open>int\<close> on a string\<close>

text \<open>
  The first code point of every run of ten Unicode decimal digits (category Nd,
  Unicode 14): \<open>int\<close> reads any of them as the digit of its position in the run.
\<close>

definition decimal_starts :: "nat list" where
  "decimal_starts =
     [48, 1632, 1776, 1984, 2406, 2534, 2662, 2790, 2918, 3046, 3174, 3302, 3430, 3558,
      3664, 3792, 3872, 4160, 4240, 6112, 6160, 6470, 6608, 6784, 6800, 6992, 7088, 7232,
      7248, 42528, 43216, 43264, 43472, 43504, 43600, 44016, 65296, 66720, 68912, 69734,
      69872, 69942, 70096, 70384, 70736, 70864, 71248, 71360, 71472, 71904, 72016, 72784,
      73040, 73120, 92768, 92864, 93008, 120782, 120792, 120802, 120812, 120822, 123200,
      123632, 125264, 130032]"

definition todecimal :: "nat \<Rightarrow> nat option" where
  "todecimal c =
     (case find (\<lambda>s. s \<le> c \<and> c < s + 10) decimal_starts of
        None \<Rightarrow> None
      | Some s \<Rightarrow> Some (c - s))"

definition is_decimal :: "nat \<Rightarrow> bool" where
  "is_decimal c = (case todecimal c of None \<Rightarrow> False | Some d \<Rightarrow> True)"

text \<open>
  White space that \<open>int\<close> skips around the number: the ASCII white space of C, and the
  Unicode white space beyond ASCII (the separators 28 to 31 are not skipped).
\<close>

definition int_space :: "nat \<Rightarrow> bool" where
  "int_space c \<longleftrightarrow> (9 \<le> c \<and> c \<le> 13) \<or> c = 32 \<or> (128 \<le> c \<and> isspace c)"

fun double_underscore :: "pystr \<Rightarrow> bool" where
  "double_underscore (a # b # cs) = ((a = 95 \<and> b = 95) \<or> double_underscore (b # cs))"
| "double_underscore cs = False"

definition digits_value :: "pystr \<Rightarrow> nat" where
  "digits_value body =
     fold (\<lambda>c v. case todecimal c of None \<Rightarrow> v | Some d \<Rightarrow> 10 * v + d) body 0"

text \<open>
  \<open>int(s)\<close> in base ten; \<open>None\<close> is \<open>ValueError\<close>. White space, an optional sign,
  then digits, where single underscores may stand between digits, then white space.
  (The interpreter's limit on the number of digits, 4300 by default in recent versions,
  is beyond the length of a file name and is left out.)
\<close>

definition py_int :: "pystr \<Rightarrow> int option" where
  "py_int s =
     (let s1 = dropWhile int_space s;
          negative = (take 1 s1 = [45]);
          s2 = (if take 1 s1 = [43] \<or> take 1 s1 = [45] then drop 1 s1 else s1);
          body = takeWhile (\<lambda>c. c = 95 \<or> is_decimal c) s2;
          rest = dropWhile int_space (drop (length body) s2)
      in if rest \<noteq> [] then None
         else if body = [] then None
         else if take 1 body = [95] then None
         else if take 1 (rev body) = [95] then None
         else if double_underscore body then None
         else Some (if negative then - int (digits_value body) else int (digits_value body)))"

subsection \<open>Scanning and ordering\<close>

definition startswith :: "pystr \<Rightarrow> pystr \<Rightarrow> bool" where
  "startswith s prefix = match_prefix (=) prefix s"

definition endswith :: "pystr \<Rightarrow> pystr \<Rightarrow> bool" where
  "endswith s suffix = match_prefix (=) (rev suffix) (rev s)"

text \<open>\<open>filename.split('.')[0]\<close>: the part of the name before its first dot.\<close>

definition before_first_dot :: "pystr \<Rightarrow> pystr" where
  "before_first_dot filename = takeWhile (\<lambda>c. c \<noteq> 46) filename"

text \<open>
  The sort key: \<open>int(filename.split('.')[0])\<close>, and 999 when that raises.
\<close>

definition get_index :: "pystr \<Rightarrow> int" where
  "get_index filename =
     (case py_int (before_first_dot filename) of
        Some i \<Rightarrow> i
      | None \<Rightarrow> 999)"

text \<open>
  The loop over \<open>os.listdir(task_dir)\<close> followed by \<open>image_files.sort(key=get_index)\<close>.
  Python's sort is stable, and so is \<open>sort_key\<close>.
\<close>

definition scan_images :: "pystr list \<Rightarrow> pystr list" where
  "scan_images listing =
     sort_key get_index
       (filter (\<lambda>filename.
            \<not> startswith filename (u ''thumb_'') \<and>
            (endswith filename (u ''.png'') \<or> endswith filename (u ''.jpg'')
               \<or> endswith filename (u ''.jpeg'')))
          listing)"

subsection \<open>The file system\<close>

text \<open>
  What the reconciler sees at a path: nothing (\<open>None\<close>), something that is not a
  directory, a directory with its entries in the order \<open>os.listdir\<close> returns them, or a
  directory whose listing raises (with the text of the exception).
\<close>

datatype fs_node = Not_Dir | Dir "pystr list" | Unreadable pystr

type_synonym filesystem = "pystr \<Rightarrow> fs_node option"

text \<open>\<open>os.path.join(a, b)\<close> of \<open>posixpath\<close>: an absolute \<open>b\<close> replaces \<open>a\<close>.\<close>

definition os_path_join :: "pystr \<Rightarrow> pystr \<Rightarrow> pystr" where
  "os_path_join a b =
     (if take 1 b = [47] then b
      else if a = [] \<or> take 1 (rev a) = [47] then a @ b
      else a @ [47] @ b)"

section \<open>Persistent data (backend/models.py)\<close>

text \<open>
  The three tables the history service works on. The column \<open>id\<close> of \<open>HistoryRecord\<close>
  is the field \<open>hr_id\<close>, and the column \<open>record_id\<close> of the two other tables is
  \<open>page_record_id\<close> and \<open>image_record_id\<close>. The surrogate integer keys of
  \<open>OutlinePage\<close> and \<open>TaskImage\<close> rows are left out: no query of the service reads them.
  A time stamp is a natural number. The \<open>filename\<close> given to the \<open>TaskImage\<close>
  constructor may be Python's \<open>None\<close>; the column is declared \<open>nullable=False\<close>, which
  the database checks when the session is flushed.
\<close>

record HistoryRecord =
  hr_id :: pystr
  title :: pystr
  status :: pystr
  thumbnail :: "pystr option"
  task_id :: "pystr option"
  outline_text :: "pystr option"
  created_at :: nat
  updated_at :: nat

record OutlinePage =
  page_record_id :: pystr
  page_index :: int
  page_type :: pystr
  content :: pystr

record TaskImage =
  image_record_id :: pystr
  image_index :: nat
  filename :: "pystr option"

record database =
  records :: "HistoryRecord list"
  pages :: "OutlinePage list"
  images :: "TaskImage list"

text \<open>\<open>HistoryRecord.query.get(record_id)\<close>.\<close>

definition query_get :: "database \<Rightarrow> pystr \<Rightarrow> HistoryRecord option" where
  "query_get db record_id = find (\<lambda>r. hr_id r = record_id) (records db)"

text \<open>\<open>HistoryRecord.query.filter_by(task_id=task_id).first()\<close>, in row order.\<close>

definition query_by_task_id_first :: "database \<Rightarrow> pystr \<Rightarrow> HistoryRecord option" where
  "query_by_task_id_first db tid = find (\<lambda>r. task_id r = Some tid) (records db)"

text \<open>\<open>record.pages.count()\<close>.\<close>

definition pages_count :: "database \<Rightarrow> pystr \<Rightarrow> nat" where
  "pages_count db record_id = length (filter (\<lambda>p. page_record_id p = record_id) (pages db))"

text \<open>The \<open>TaskImage\<close> rows of a record, as \<open>TaskImage.query.filter_by(record_id=..)\<close>.\<close>

definition images_of :: "database \<Rightarrow> pystr \<Rightarrow> TaskImage list" where
  "images_of db record_id = filter (\<lambda>i. image_record_id i = record_id) (images db)"

section \<open>History service (backend/services/history.py)\<close>

subsection \<open>Arguments of \<open>update_record\<close>\<close>

text \<open>
  The dictionaries passed as \<open>outline\<close> and \<open>images\<close>. A field that is \<open>None\<close> stands
  for a key that is absent, where \<open>dict.get\<close> returns its default; \<open>pages\<close> and
  \<open>generated\<close> default to the empty list. An entry of \<open>generated\<close> is a file name or
  Python's \<open>None\<close>.
\<close>

record page_dict =
  d_index :: "int option"
  d_type :: "pystr option"
  d_content :: "pystr option"

record outline_dict =
  raw :: "pystr option"
  o_pages :: "page_dict list"

record images_dict =
  i_task_id :: "pystr option"
  generated :: "pystr option list"

subsection \<open>The session\<close>

text \<open>
  The state of the database session while \<open>update_record\<close> runs: the record object
  being changed, the rows left after the bulk deletes, and the rows added with
  \<open>db.session.add\<close>, which are written when the session is committed.
\<close>

record session =
  s_record :: HistoryRecord
  s_pages :: "OutlinePage list"
  s_images :: "TaskImage list"
  add_pages :: "OutlinePage list"
  add_images :: "TaskImage list"

text \<open>
  A unique constraint at insertion: the keys of the new rows differ from each other
  and from the keys of the rows present.
\<close>

definition fresh_keys :: "'k list \<Rightarrow> 'k list \<Rightarrow> bool" where
  "fresh_keys present new \<longleftrightarrow> distinct new \<and> list_all (\<lambda>k. k \<notin> set present) new"

fun replace_first :: "('a \<Rightarrow> bool) \<Rightarrow> 'a \<Rightarrow> 'a list \<Rightarrow> 'a list" where
  "replace_first P y [] = []"
| "replace_first P y (x # xs) = (if P x then y # xs else x # replace_first P y xs)"

text \<open>
  \<open>db.session.commit()\<close>: \<open>None\<close> is the exception of a violated constraint, that is
  a \<open>TaskImage\<close> without file name (\<open>nullable=False\<close>), or a second row with the same
  \<open>(record_id, page_index)\<close> or \<open>(record_id, image_index)\<close> (\<open>uix_record_page\<close>,
  \<open>uix_record_image\<close>). Otherwise the changed record replaces the stored one and the
  added rows are stored. A database that cannot be reached is not part of the model.
\<close>

definition commit :: "database \<Rightarrow> session \<Rightarrow> database option" where
  "commit db s =
     (if list_all (\<lambda>i. filename i \<noteq> None) (add_images s)
         \<and> fresh_keys (map (\<lambda>p. (page_record_id p, page_index p)) (s_pages s))
                       (map (\<lambda>p. (page_record_id p, page_index p)) (add_pages s))
         \<and> fresh_keys (map (\<lambda>i. (image_record_id i, image_index i)) (s_images s))
                       (map (\<lambda>i. (image_record_id i, image_index i)) (add_images s))
      then Some \<lparr>records = replace_first (\<lambda>r. hr_id r = hr_id (s_record s)) (s_record s) (records db),
                 pages = s_pages s @ add_pages s,
                 images = s_images s @ add_images s\<rparr>
      else None)"

subsection \<open>\<open>update_record\<close>\<close>

text \<open>The block \<open>if outline is not None\<close>.\<close>

definition set_outline :: "pystr \<Rightarrow> outline_dict \<Rightarrow> session \<Rightarrow> session" where
  "set_outline record_id outline s =
     s\<lparr>s_record := (s_record s)\<lparr>outline_text := Some (case raw outline of None \<Rightarrow> [] | Some t \<Rightarrow> t)\<rparr>,
       s_pages := filter (\<lambda>p. page_record_id p \<noteq> record_id) (s_pages s),
       add_pages := add_pages s @
         map (\<lambda>page. \<lparr>page_record_id = record_id,
                       page_index = (case d_index page of None \<Rightarrow> 0 | Some i \<Rightarrow> i),
                       page_type = (case d_type page of None \<Rightarrow> u ''content'' | Some t \<Rightarrow> t),
                       content = (case d_content page of None \<Rightarrow> [] | Some c \<Rightarrow> c)\<rparr>)
             (o_pages outline)\<rparr>"

text \<open>
  The block \<open>if images is not None\<close>: \<open>if task_id\<close> holds for a non-empty string,
  \<open>if generated\<close> for a non-empty list; the rows are numbered by \<open>enumerate\<close>.
\<close>

definition set_images :: "pystr \<Rightarrow> images_dict \<Rightarrow> session \<Rightarrow> session" where
  "set_images record_id imgs s =
     (let s1 = (case i_task_id imgs of
                  None \<Rightarrow> s
                | Some t \<Rightarrow> if t = [] then s else s\<lparr>s_record := (s_record s)\<lparr>task_id := Some t\<rparr>\<rparr>)
      in if generated imgs = [] then s1
         else s1\<lparr>s_images := filter (\<lambda>i. image_record_id i \<noteq> record_id) (s_images s1),
                 add_images := add_images s1 @
                   map (\<lambda>(idx, fname). \<lparr>image_record_id = record_id, image_index = idx,
                                          filename = fname\<rparr>)
                       (enumerate 0 (generated imgs))\<rparr>)"

text \<open>
  The statements of \<open>update_record\<close> between \<open>try\<close> and \<open>commit\<close>, on the record that
  \<open>query.get\<close> returned, at time \<open>now\<close>.
\<close>

definition update_session ::
  "nat \<Rightarrow> database \<Rightarrow> pystr \<Rightarrow> HistoryRecord \<Rightarrow> outline_dict option \<Rightarrow> images_dict option \<Rightarrow>
   pystr option \<Rightarrow> pystr option \<Rightarrow> session" where
  "update_session now db record_id record outline imgs new_status new_thumbnail =
     (let s0 = \<lparr>s_record = record\<lparr>updated_at := now\<rparr>, s_pages = pages db,
                s_images = images db, add_pages = [], add_images = []\<rparr>;
          s1 = (case outline of None \<Rightarrow> s0 | Some ol \<Rightarrow> set_outline record_id ol s0);
          s2 = (case imgs of None \<Rightarrow> s1 | Some im \<Rightarrow> set_images record_id im s1);
          s3 = (case new_status of
                  None \<Rightarrow> s2
                | Some st \<Rightarrow> s2\<lparr>s_record := (s_record s2)\<lparr>status := st\<rparr>\<rparr>)
      in case new_thumbnail of
           None \<Rightarrow> s3
         | Some th \<Rightarrow> s3\<lparr>s_record := (s_record s3)\<lparr>thumbnail := Some th\<rparr>\<rparr>)"

text \<open>
  \<open>update_record(record_id, outline, images, status, thumbnail)\<close>: the result and the
  database afterwards. A missing record gives \<open>False\<close>; an exception at \<open>commit\<close> rolls
  the session back and gives \<open>False\<close> too.
\<close>

definition update_record ::
  "nat \<Rightarrow> database \<Rightarrow> pystr \<Rightarrow> outline_dict option \<Rightarrow> images_dict option \<Rightarrow>
   pystr option \<Rightarrow> pystr option \<Rightarrow> bool \<times> database" where
  "update_record now db record_id outline imgs new_status new_thumbnail =
     (case query_get db record_id of
        None \<Rightarrow> (False, db)
      | Some record \<Rightarrow>
          (case commit db (update_session now db record_id record outline imgs
                             new_status new_thumbnail) of
             None \<Rightarrow> (False, db)
           | Some db' \<Rightarrow> (True, db')))"

subsection \<open>\<open>scan_and_sync_task_images\<close>\<close>

text \<open>
  The dictionary the reconciler returns: a failure with its message, the result for a
  task with a record, or the result for a task without one (the only one with the key
  \<open>no_record\<close>).
\<close>

datatype scan_error = Task_Dir_Missing pystr | Scan_Failed pystr

datatype scan_result =
    Failed scan_error
  | Synced pystr pystr nat "pystr list" pystr
  | No_Record pystr nat "pystr list"

text \<open>\<open>result.get("no_record")\<close>, read as a truth value.\<close>

fun no_record :: "scan_result \<Rightarrow> bool" where
  "no_record (No_Record t n fs) = True"
| "no_record r = False"

text \<open>
  The reconciler on the file system \<open>fs\<close>, with \<open>self.history_dir\<close>, at time \<open>now\<close>:
  its result and the database afterwards. \<open>Synced\<close> carries \<open>record_id\<close>, \<open>task_id\<close>,
  \<open>images_count\<close>, \<open>images\<close> and \<open>status\<close>; the result of \<open>update_record\<close> is not
  looked at.
\<close>

definition scan_and_sync_task_images ::
  "filesystem \<Rightarrow> pystr \<Rightarrow> nat \<Rightarrow> database \<Rightarrow> pystr \<Rightarrow> scan_result \<times> database" where
  "scan_and_sync_task_images fs history_dir now db tid =
     (let task_dir = os_path_join history_dir tid in
      case fs task_dir of
        None \<Rightarrow> (Failed (Task_Dir_Missing tid), db)
      | Some Not_Dir \<Rightarrow> (Failed (Task_Dir_Missing tid), db)
      | Some (Unreadable msg) \<Rightarrow> (Failed (Scan_Failed msg), db)
      | Some (Dir listing) \<Rightarrow>
          (let image_files = scan_images listing in
           case query_by_task_id_first db tid of
             None \<Rightarrow> (No_Record tid (length image_files) image_files, db)
           | Some record \<Rightarrow>
               (let expected_count = pages_count db (hr_id record);
                    actual_count = length image_files;
                    new_status =
                      (if actual_count = 0 then u ''draft''
                       else if actual_count \<ge> expected_count then u ''completed''
                       else u ''partial'');
                    upd = update_record now db (hr_id record) None
                            (Some \<lparr>i_task_id = Some tid, generated = map Some image_files\<rparr>)
                            (Some new_status)
                            (case image_files of [] \<Rightarrow> None | first # _ \<Rightarrow> Some first)
                in (Synced (hr_id record) tid (length image_files) image_files new_status,
                    snd upd))))"

section \<open>Notions used to state the properties\<close>

text \<open>
  The \<open>TaskImage\<close> rows that hold the given file names by position, counted from 0,
  for the record \<open>rid\<close>.
\<close>

definition image_rows :: "pystr \<Rightarrow> pystr list \<Rightarrow> TaskImage list" where
  "image_rows rid files =
     map (\<lambda>(idx, fname). \<lparr>image_record_id = rid, image_index = idx, filename = Some fname\<rparr>)
       (enumerate 0 files)"

text \<open>
  The status of a reconciliation as the specification derives it from the number of
  outline pages of the record and the number of image files found.
\<close>

definition derived_status :: "nat \<Rightarrow> nat \<Rightarrow> pystr" where
  "derived_status expected_count actual_count =
     (if actual_count = 0 then u ''draft''
      else if actual_count \<ge> expected_count then u ''completed''
      else u ''partial'')"

definition first_or_none :: "pystr list \<Rightarrow> pystr option" where
  "first_or_none files = (case files of [] \<Rightarrow> None | first # others \<Rightarrow> Some first)"

text \<open>
  The record \<open>r\<close> after a reconciliation at time \<open>now\<close> for the task \<open>tid\<close> that sets
  the status \<open>st\<close> and passes the thumbnail argument \<open>th\<close>.
\<close>

definition synced_record ::
  "nat \<Rightarrow> pystr \<Rightarrow> pystr \<Rightarrow> pystr option \<Rightarrow> HistoryRecord \<Rightarrow> HistoryRecord" where
  "synced_record now tid st th r =
     r\<lparr>updated_at := now,
       task_id := (if tid = [] then task_id r else Some tid),
       status := st,
       thumbnail := (case th of None \<Rightarrow> thumbnail r | Some t \<Rightarrow> Some t)\<rparr>"

subsection \<open>Example states\<close>

text \<open>
  A record linked to the task \<open>tk\<close>, with three outline pages, one stored image and a
  thumbnail; and a record as \<open>create_record\<close> leaves it when no task is given.
\<close>

definition linked_record :: HistoryRecord where
  "linked_record =
     \<lparr>hr_id = u ''r1'', title = u ''topic'', status = u ''completed'',
      thumbnail = Some (u ''0.png''), task_id = Some (u ''tk''),
      outline_text = Some [], created_at = 1, updated_at = 2\<rparr>"

definition linked_db :: database where
  "linked_db =
     \<lparr>records = [linked_record],
      pages = [\<lparr>page_record_id = u ''r1'', page_index = 0, page_type = u ''cover'', content = u ''a''\<rparr>,
               \<lparr>page_record_id = u ''r1'', page_index = 1, page_type = u ''content'', content = u ''b''\<rparr>,
               \<lparr>page_record_id = u ''r1'', page_index = 2, page_type = u ''summary'', content = u ''c''\<rparr>],
      images = [\<lparr>image_record_id = u ''r1'', image_index = 0, filename = Some (u ''0.png'')\<rparr>]\<rparr>"

definition fresh_record :: HistoryRecord where
  "fresh_record =
     \<lparr>hr_id = u ''r2'', title = u ''topic'', status = u ''draft'',
      thumbnail = None, task_id = None,
      outline_text = Some [], created_at = 1, updated_at = 1\<rparr>"

definition fresh_db :: database where
  "fresh_db = \<lparr>records = [fresh_record], pages = [], images = []\<rparr>"

text \<open>
  A file system with one directory, at \<open>path\<close>, that lists \<open>listing\<close>.
\<close>

definition one_dir :: "pystr \<Rightarrow> pystr list \<Rightarrow> filesystem" where
  "one_dir path listing = (\<lambda>p. if p = path then Some (Dir listing) else None)"

section \<open>Evaluating the scan on concrete names\<close>

lemma py_int_0: "py_int (u ''0'') = Some 0"
  apply (simp add: py_int_def int_space_def isspace_def)
  apply (simp add: Let_def is_decimal_def todecimal_def decimal_starts_def)
  apply (simp add: digits_value_def todecimal_def decimal_starts_def)
  done

lemma py_int_1: "py_int (u ''1'') = Some 1"
  apply (simp add: py_int_def int_space_def isspace_def)
  apply (simp add: Let_def is_decimal_def todecimal_def decimal_starts_def)
  apply (simp add: digits_value_def todecimal_def decimal_starts_def)
  done

lemma py_int_1000: "py_int (u ''1000'') = Some 1000"
  apply (simp add: py_int_def int_space_def isspace_def)
  apply (simp add: Let_def is_decimal_def todecimal_def decimal_starts_def)
  apply (simp add: digits_value_def todecimal_def decimal_starts_def)
  done

lemma py_int_abc: "py_int (u ''abc'') = None"
  apply (simp add: py_int_def int_space_def isspace_def)
  apply (simp add: Let_def is_decimal_def todecimal_def decimal_starts_def)
  done

lemma get_index_0: "get_index (u ''0.png'') = 0"
  using py_int_0 by (simp add: get_index_def before_first_dot_def)

lemma get_index_1: "get_index (u ''1.png'') = 1"
  using py_int_1 by (simp add: get_index_def before_first_dot_def)

lemma get_index_1000: "get_index (u ''1000.png'') = 1000"
  using py_int_1000 by (simp add: get_index_def before_first_dot_def)

lemma get_index_abc: "get_index (u ''abc.png'') = 999"
  using py_int_abc by (simp add: get_index_def before_first_dot_def)

lemma scan_images_empty: "scan_images [] = []"
  by (simp add: scan_images_def)

lemma scan_images_1_0: "scan_images [u ''1.png'', u ''0.png''] = [u ''0.png'', u ''1.png'']"
  using get_index_0 get_index_1
  by (simp add: scan_images_def startswith_def endswith_def)

lemma scan_images_abc_0_1:
  "scan_images [u ''abc.png'', u ''0.png'', u ''1.png''] = [u ''0.png'', u ''1.png'', u ''abc.png'']"
  using get_index_0 get_index_1 get_index_abc
  by (simp add: scan_images_def startswith_def endswith_def)

lemma scan_images_one: "scan_images [u ''config.png''] = [u ''config.png'']"
  by (simp add: scan_images_def startswith_def endswith_def)

lemma scan_images_parent: "scan_images [u ''history'', u ''config.png''] = [u ''config.png'']"
  by (simp add: scan_images_def startswith_def endswith_def)

lemma linked_db_by_task: "query_by_task_id_first linked_db (u ''tk'') = Some linked_record"
  by (simp add: query_by_task_id_first_def linked_db_def linked_record_def)

lemma linked_db_get: "query_get linked_db (u ''r1'') = Some linked_record"
  by (simp add: query_get_def linked_db_def linked_record_def)

lemma linked_db_pages: "pages_count linked_db (u ''r1'') = 3"
  by (simp add: pages_count_def linked_db_def)

lemma fresh_db_get: "query_get fresh_db (u ''r2'') = Some fresh_record"
  by (simp add: query_get_def fresh_db_def fresh_record_def)

section \<open>The outline parser\<close>

text \<open>
  Claim C1. The parser is to number the pages it emits 0, 1, ... without gaps, so that
  the text \<open><page>\nA\n<page>\n\n<page>\nB\<close> gives the indices 0 and 1. The code
  numbers a page by the position of its segment among all segments, empty ones
  included: the text gives the indices 1 and 3, since the segment before the first
  marker and the blank one each take a number.
\<close>

theorem parse_outline_keeps_raw_positions:
  "map p_index
     (parse_outline
        (u ''<page>'' @ [10] @ u ''A'' @ [10] @ u ''<page>'' @ [10, 10] @ u ''<page>'' @ [10] @ u ''B''))
   = [1, 3]"
  by (simp add: parse_outline_def pages_raw_def strip_def isspace_def eq_ignorecase_def
        ascii_lower_def Let_def)

text \<open>
  Claim C3. A text that has the page marker only in upper case, together with three
  hyphens, is to be split on the marker. The code looks for the lower-case marker with
  an exact test before it splits without regard to case, so this text is split on the
  hyphens and the marker stays inside the first page.
\<close>

theorem uppercase_marker_splits_on_hyphens:
  "map p_content (parse_outline (u ''A<PAGE>B---C'')) = [u ''A<PAGE>B'', u ''C'']"
  by (simp add: parse_outline_def pages_raw_def strip_def isspace_def eq_ignorecase_def
        ascii_lower_def Let_def)

section \<open>Facts about the session and the commit\<close>

lemma find_replace_first:
  "find P xs = Some x \<Longrightarrow> P y \<Longrightarrow> find P (replace_first P y xs) = Some y"
  by (induction xs) (auto split: if_splits)

lemma query_get_hr_id: "query_get db rid = Some r \<Longrightarrow> hr_id r = rid"
  by (auto simp: query_get_def find_Some_iff)

lemma query_by_task_id_first_exists:
  "query_by_task_id_first db tid = Some r \<Longrightarrow> \<exists>r0. query_get db (hr_id r) = Some r0"
proof -
  assume "query_by_task_id_first db tid = Some r"
  then have "r \<in> set (records db)"
    by (auto simp: query_by_task_id_first_def find_Some_iff)
  then have "find (\<lambda>x. hr_id x = hr_id r) (records db) \<noteq> None"
    by (auto simp: find_None_iff)
  then show ?thesis by (auto simp: query_get_def)
qed

lemma enumerate_map_Some:
  "map (\<lambda>(idx, fname). \<lparr>image_record_id = rid, image_index = idx, filename = fname\<rparr>)
       (enumerate n (map Some files)) =
   map (\<lambda>(idx, fname). \<lparr>image_record_id = rid, image_index = idx, filename = Some fname\<rparr>)
       (enumerate n files)"
  by (induction files arbitrary: n) auto

text \<open>The keys of the rows made from a list are the positions in the list.\<close>

lemma generated_keys:
  "map (\<lambda>i. (image_record_id i, image_index i))
     (map (\<lambda>(idx, fname). \<lparr>image_record_id = rid, image_index = idx, filename = fname\<rparr>)
        (enumerate n gen)) =
   map (\<lambda>i. (rid, i)) [n..<n + length gen]"
proof (induction gen arbitrary: n)
  case Nil
  show ?case by simp
next
  case (Cons f gen)
  have "n < n + length (f # gen)" by simp
  then have "[n..<n + length (f # gen)] = n # [Suc n..<n + length (f # gen)]"
    by (rule upt_conv_Cons)
  with Cons.IH [of "Suc n"] show ?case by (simp del: upt_Suc)
qed

lemma image_rows_keys:
  "map (\<lambda>i. (image_record_id i, image_index i)) (image_rows rid files) =
   map (\<lambda>i. (rid, i)) [0..<length files]"
  using generated_keys [of rid 0 "map Some files"]
  by (simp add: image_rows_def enumerate_map_Some)

lemma image_rows_fresh:
  "fresh_keys (map (\<lambda>i. (image_record_id i, image_index i))
                 (filter (\<lambda>i. image_record_id i \<noteq> rid) imgs))
     (map (\<lambda>i. (image_record_id i, image_index i)) (image_rows rid files))"
  by (auto simp: fresh_keys_def image_rows_keys distinct_map inj_on_def list_all_iff)

lemma image_rows_named: "list_all (\<lambda>i. filename i \<noteq> None) (image_rows rid files)"
  by (auto simp: image_rows_def list_all_iff)

lemma synced_record_hr_id [simp]: "hr_id (synced_record now tid st th r) = hr_id r"
  by (simp add: synced_record_def)



text \<open>The session of the call that the reconciler makes.\<close>

lemma update_session_scan:
  "update_session now db rid r None
     (Some \<lparr>i_task_id = Some tid, generated = map Some files\<rparr>) (Some st) th =
   \<lparr>s_record = synced_record now tid st th r,
    s_pages = pages db,
    s_images = (if files = [] then images db
                else filter (\<lambda>i. image_record_id i \<noteq> rid) (images db)),
    add_pages = [],
    add_images = (if files = [] then [] else image_rows rid files)\<rparr>"
  by (simp add: update_session_def set_images_def synced_record_def image_rows_def
        enumerate_map_Some Let_def split: option.splits)

text \<open>That call commits, and this is the database it leaves.\<close>

lemma update_record_scan:
  assumes "query_get db rid = Some r"
  shows "update_record now db rid None
           (Some \<lparr>i_task_id = Some tid, generated = map Some files\<rparr>) (Some st) th =
         (True,
          \<lparr>records = replace_first (\<lambda>x. hr_id x = rid) (synced_record now tid st th r) (records db),
           pages = pages db,
           images = (if files = [] then images db
                     else filter (\<lambda>i. image_record_id i \<noteq> rid) (images db) @ image_rows rid files)\<rparr>)"
proof -
  have rid: "hr_id r = rid"
    using assms by (rule query_get_hr_id)
  show ?thesis
    unfolding update_record_def update_session_scan
    using assms rid image_rows_fresh [of rid "images db" files] image_rows_named [of rid files]
    by (simp add: commit_def fresh_keys_def)
qed


section \<open>The reconciler on a task with a record\<close>

lemma scan_linked:
  assumes dir: "fs (os_path_join history_dir tid) = Some (Dir listing)"
    and linked: "query_by_task_id_first db tid = Some lr"
    and got: "query_get db (hr_id lr) = Some r"
  shows "scan_and_sync_task_images fs history_dir now db tid =
         (Synced (hr_id lr) tid (length (scan_images listing)) (scan_images listing)
            (derived_status (pages_count db (hr_id lr)) (length (scan_images listing))),
          \<lparr>records = replace_first (\<lambda>x. hr_id x = hr_id lr)
                       (synced_record now tid
                          (derived_status (pages_count db (hr_id lr)) (length (scan_images listing)))
                          (first_or_none (scan_images listing)) r)
                       (records db),
           pages = pages db,
           images = (if scan_images listing = [] then images db
                     else filter (\<lambda>i. image_record_id i \<noteq> hr_id lr) (images db)
                          @ image_rows (hr_id lr) (scan_images listing))\<rparr>)"
  using dir linked
  by (simp add: scan_and_sync_task_images_def Let_def derived_status_def first_or_none_def
        update_record_scan [OF got])

lemma query_get_after_sync:
  assumes "query_get db rid = Some r" and "hr_id y = rid"
  shows "query_get \<lparr>records = replace_first (\<lambda>x. hr_id x = rid) y (records db),
                    pages = ps, images = imgs\<rparr> rid = Some y"
  using assms by (simp add: query_get_def find_replace_first)

lemma images_of_after_sync:
  "images_of \<lparr>records = rs, pages = ps,
              images = filter (\<lambda>i. image_record_id i \<noteq> rid) imgs @ image_rows rid files\<rparr> rid =
   image_rows rid files"
proof -
  have "filter (\<lambda>i. image_record_id i = rid) (image_rows rid files) = image_rows rid files"
    by (rule filter_True) (auto simp: image_rows_def)
  moreover have "filter (\<lambda>i. image_record_id i = rid)
                   (filter (\<lambda>i. image_record_id i \<noteq> rid) imgs) = []"
    by (induction imgs) auto
  ultimately show ?thesis by (simp add: images_of_def)
qed

text \<open>
  After the record found for a task has been replaced by its reconciled version, the
  search by task still ends at a record with the same identifier.
\<close>

lemma find_after_replace:
  assumes "find T recs = Some lr" and "hr_id lr = rid" and "hr_id y = rid"
    and "find (\<lambda>x. hr_id x = rid) recs = Some r" and "T y \<or> (T y \<longleftrightarrow> T r)"
  shows "\<exists>r'. find T (replace_first (\<lambda>x. hr_id x = rid) y recs) = Some r' \<and> hr_id r' = rid"
  using assms
proof (induction recs)
  case Nil
  then show ?case by simp
next
  case (Cons x xs)
  show ?case
  proof (cases "hr_id x = rid")
    case True
    with Cons.prems show ?thesis by (auto split: if_splits)
  next
    case False
    with Cons.prems have "\<not> T x" by (auto split: if_splits)
    with False Cons show ?thesis by simp
  qed
qed

lemma linked_after_sync:
  assumes linked: "query_by_task_id_first db tid = Some lr"
    and got: "query_get db (hr_id lr) = Some r"
  shows "\<exists>r'. query_by_task_id_first
                \<lparr>records = replace_first (\<lambda>x. hr_id x = hr_id lr)
                             (synced_record now tid st th r) (records db),
                 pages = ps, images = imgs\<rparr> tid = Some r'
              \<and> hr_id r' = hr_id lr"
proof -
  have "task_id (synced_record now tid st th r) = Some tid
        \<or> (task_id (synced_record now tid st th r) = Some tid \<longleftrightarrow> task_id r = Some tid)"
    by (simp add: synced_record_def)
  moreover have "hr_id (synced_record now tid st th r) = hr_id lr"
    using query_get_hr_id [OF got] by simp
  ultimately show ?thesis
    using linked got
      find_after_replace [of "\<lambda>x. task_id x = Some tid" "records db" lr "hr_id lr"
        "synced_record now tid st th r" r]
    by (simp add: query_by_task_id_first_def query_get_def)
qed

text \<open>
  Claim C4. For a reconciliation (the task directory exists and is listed) of a task
  with a record, the status in the result, which is also the status stored on the
  record, is \<open>draft\<close> when no image file was found, \<open>completed\<close> when the number found
  is at least the number of outline pages of the record (which may be 0), and
  \<open>partial\<close> otherwise.
\<close>

theorem status_derivation:
  assumes dir: "fs (os_path_join history_dir tid) = Some (Dir listing)"
    and linked: "query_by_task_id_first db tid = Some lr"
  shows "fst (scan_and_sync_task_images fs history_dir now db tid) =
           Synced (hr_id lr) tid (length (scan_images listing)) (scan_images listing)
             (derived_status (pages_count db (hr_id lr)) (length (scan_images listing)))
         \<and> map_option status
             (query_get (snd (scan_and_sync_task_images fs history_dir now db tid)) (hr_id lr)) =
           Some (derived_status (pages_count db (hr_id lr)) (length (scan_images listing)))"
proof -
  obtain r where got: "query_get db (hr_id lr) = Some r"
    using query_by_task_id_first_exists [OF linked] by blast
  have rid: "hr_id r = hr_id lr"
    using got by (rule query_get_hr_id)
  show ?thesis
    unfolding scan_linked [where fs = fs and now = now, OF dir linked got]
    using got rid by (simp add: query_get_after_sync synced_record_def)
qed

text \<open>
  Claim C4, at a record with three outline pages and a directory with two image files:
  the status is \<open>partial\<close>.
\<close>

theorem status_derivation_witness:
  "one_dir (u ''/app/history/tk'') [u ''1.png'', u ''0.png'']
     (os_path_join (u ''/app/history'') (u ''tk'')) = Some (Dir [u ''1.png'', u ''0.png''])
   \<and> query_by_task_id_first linked_db (u ''tk'') = Some linked_record
   \<and> fst (scan_and_sync_task_images (one_dir (u ''/app/history/tk'') [u ''1.png'', u ''0.png''])
            (u ''/app/history'') 9 linked_db (u ''tk'')) =
       Synced (u ''r1'') (u ''tk'') 2 [u ''0.png'', u ''1.png''] (u ''partial'')"
proof -
  have dir: "one_dir (u ''/app/history/tk'') [u ''1.png'', u ''0.png'']
               (os_path_join (u ''/app/history'') (u ''tk'')) = Some (Dir [u ''1.png'', u ''0.png''])"
    by (simp add: one_dir_def os_path_join_def)
  have id: "hr_id linked_record = u ''r1''"
    by (simp add: linked_record_def)
  show ?thesis
    using dir linked_db_by_task id linked_db_pages scan_images_1_0
      status_derivation [where fs = "one_dir (u ''/app/history/tk'') [u ''1.png'', u ''0.png'']"
        and now = 9, OF dir linked_db_by_task]
    by (simp add: derived_status_def)
qed

text \<open>
  Claim C2. After a reconciliation the \<open>TaskImage\<close> rows of the record are to be
  exactly the scanned file names, and the thumbnail the first of them or absent, also
  when the scan finds no image file. The code passes the empty list and \<open>None\<close> to
  \<open>update_record\<close>, which reads both as "no change": a reconciliation that finds no
  image file leaves the stored image row and the thumbnail of the record as they were.
\<close>

theorem empty_scan_keeps_old_images:
  "images_of (snd (scan_and_sync_task_images (one_dir (u ''/app/history/tk'') [])
                     (u ''/app/history'') 9 linked_db (u ''tk''))) (u ''r1'') =
     [\<lparr>image_record_id = u ''r1'', image_index = 0, filename = Some (u ''0.png'')\<rparr>]
   \<and> map_option thumbnail
       (query_get (snd (scan_and_sync_task_images (one_dir (u ''/app/history/tk'') [])
                          (u ''/app/history'') 9 linked_db (u ''tk''))) (u ''r1'')) =
     Some (Some (u ''0.png''))"
proof -
  have dir: "one_dir (u ''/app/history/tk'') []
               (os_path_join (u ''/app/history'') (u ''tk'')) = Some (Dir [])"
    by (simp add: one_dir_def os_path_join_def)
  have id: "hr_id linked_record = u ''r1''"
    by (simp add: linked_record_def)
  have got: "query_get linked_db (hr_id linked_record) = Some linked_record"
    by (simp add: query_get_def linked_db_def linked_record_def)
  show ?thesis
    unfolding scan_linked [where fs = "one_dir (u ''/app/history/tk'') []" and now = 9,
        OF dir linked_db_by_task got]
    by (simp add: scan_images_empty images_of_def query_get_def first_or_none_def
          synced_record_def linked_db_def linked_record_def)
qed

text \<open>
  When the scan finds at least one image file, the rows of the record are afterwards
  exactly the scanned file names by position, counted from 0, and the thumbnail is the
  first scanned file name.
\<close>

lemma nonempty_scan_replaces_images:
  assumes dir: "fs (os_path_join history_dir tid) = Some (Dir listing)"
    and linked: "query_by_task_id_first db tid = Some lr"
    and found: "scan_images listing = first # others"
  shows "images_of (snd (scan_and_sync_task_images fs history_dir now db tid)) (hr_id lr) =
           image_rows (hr_id lr) (first # others)
         \<and> map_option thumbnail
             (query_get (snd (scan_and_sync_task_images fs history_dir now db tid)) (hr_id lr)) =
           Some (Some first)"
proof -
  obtain r where got: "query_get db (hr_id lr) = Some r"
    using query_by_task_id_first_exists [OF linked] by blast
  have rid: "hr_id r = hr_id lr"
    using got by (rule query_get_hr_id)
  show ?thesis
    unfolding scan_linked [where fs = fs and now = now, OF dir linked got]
    using got rid found
    by (simp add: query_get_after_sync synced_record_def first_or_none_def
          images_of_after_sync)
qed

text \<open>
  Claim C5. Running the reconciler a second time on the database the first run left,
  with the file system unchanged, returns the result of the first run: the same
  failure, or the same file names, count, record and status. The times of the two
  runs may differ.
\<close>

theorem reconciler_idempotent:
  "fst (scan_and_sync_task_images fs history_dir now2
          (snd (scan_and_sync_task_images fs history_dir now1 db tid)) tid) =
   fst (scan_and_sync_task_images fs history_dir now1 db tid)"
proof (cases "fs (os_path_join history_dir tid)")
  case None
  then show ?thesis by (simp add: scan_and_sync_task_images_def)
next
  case (Some node)
  show ?thesis
  proof (cases node)
    case Not_Dir
    with Some show ?thesis by (simp add: scan_and_sync_task_images_def)
  next
    case (Unreadable msg)
    with Some show ?thesis by (simp add: scan_and_sync_task_images_def)
  next
    case (Dir listing)
    with Some have dir: "fs (os_path_join history_dir tid) = Some (Dir listing)" by simp
    show ?thesis
    proof (cases "query_by_task_id_first db tid")
      case None
      with dir show ?thesis by (simp add: scan_and_sync_task_images_def Let_def)
    next
      case (Some lr)
      obtain r where got: "query_get db (hr_id lr) = Some r"
        using query_by_task_id_first_exists [OF Some] by blast
      note first = scan_linked [where fs = fs and now = now1, OF dir Some got]
      obtain r' where linked2:
        "query_by_task_id_first (snd (scan_and_sync_task_images fs history_dir now1 db tid)) tid
           = Some r'"
        and same: "hr_id r' = hr_id lr"
        unfolding first using linked_after_sync [OF Some got] by fastforce
      obtain r2 where got2:
        "query_get (snd (scan_and_sync_task_images fs history_dir now1 db tid)) (hr_id r') = Some r2"
        using query_by_task_id_first_exists [OF linked2] by blast
      show ?thesis
        unfolding scan_linked [where fs = fs and now = now2, OF dir linked2 got2]
        by (simp add: same first pages_count_def)
    qed
  qed
qed

text \<open>
  Claim C6, as stated, fails: for a task that no record is linked to and whose
  directory does not exist, the reconciler returns the failure for a missing
  directory, which does not carry \<open>no_record\<close>.
\<close>

theorem orphan_missing_directory:
  "query_by_task_id_first linked_db (u ''orphan'') = None
   \<and> one_dir (u ''/app/history/tk'') []
       (os_path_join (u ''/app/history'') (u ''orphan'')) = None
   \<and> fst (scan_and_sync_task_images (one_dir (u ''/app/history/tk'') [])
            (u ''/app/history'') 9 linked_db (u ''orphan'')) =
       Failed (Task_Dir_Missing (u ''orphan''))
   \<and> \<not> no_record (fst (scan_and_sync_task_images (one_dir (u ''/app/history/tk'') [])
            (u ''/app/history'') 9 linked_db (u ''orphan'')))"
  by (simp add: scan_and_sync_task_images_def one_dir_def os_path_join_def
        query_by_task_id_first_def linked_db_def linked_record_def)

text \<open>
  Claim C6, amended. For a task that no record is linked to, the reconciler leaves the
  database as it was; and when the task directory exists and is listed, the result is
  the one for a task without record: it carries \<open>no_record\<close>, the task, and the files
  found.
\<close>

theorem orphan_scan:
  assumes "query_by_task_id_first db tid = None"
  shows "snd (scan_and_sync_task_images fs history_dir now db tid) = db
         \<and> (fs (os_path_join history_dir tid) = Some (Dir listing) \<longrightarrow>
              fst (scan_and_sync_task_images fs history_dir now db tid) =
                No_Record tid (length (scan_images listing)) (scan_images listing)
              \<and> no_record (fst (scan_and_sync_task_images fs history_dir now db tid)))"
  using assms
  by (simp add: scan_and_sync_task_images_def Let_def split: option.splits fs_node.splits)

text \<open>
  Claim C6, at a directory \<open>orphan\<close> with one image file and a database whose only
  record belongs to another task.
\<close>

theorem orphan_scan_witness:
  "query_by_task_id_first linked_db (u ''orphan'') = None
   \<and> one_dir (u ''/app/history/orphan'') [u ''config.png'']
       (os_path_join (u ''/app/history'') (u ''orphan'')) = Some (Dir [u ''config.png''])
   \<and> snd (scan_and_sync_task_images (one_dir (u ''/app/history/orphan'') [u ''config.png''])
            (u ''/app/history'') 9 linked_db (u ''orphan'')) = linked_db
   \<and> fst (scan_and_sync_task_images (one_dir (u ''/app/history/orphan'') [u ''config.png''])
            (u ''/app/history'') 9 linked_db (u ''orphan'')) =
       No_Record (u ''orphan'') 1 [u ''config.png'']
   \<and> no_record (fst (scan_and_sync_task_images (one_dir (u ''/app/history/orphan'') [u ''config.png''])
            (u ''/app/history'') 9 linked_db (u ''orphan'')))"
proof -
  have none: "query_by_task_id_first linked_db (u ''orphan'') = None"
    by (simp add: query_by_task_id_first_def linked_db_def linked_record_def)
  have dir: "one_dir (u ''/app/history/orphan'') [u ''config.png'']
       (os_path_join (u ''/app/history'') (u ''orphan'')) = Some (Dir [u ''config.png''])"
    by (simp add: one_dir_def os_path_join_def)
  show ?thesis
    using none dir scan_images_one
      orphan_scan [where fs = "one_dir (u ''/app/history/orphan'') [u ''config.png'']"
        and now = 9 and listing = "[u ''config.png'']", OF none]
    by simp
qed

section \<open>Updating a record\<close>

text \<open>
  Claim C7. An update whose image list holds \<open>None\<close> between two names is to succeed
  and store three rows, the middle one with the empty name. The code hands \<open>None\<close> to
  the row as it is; the column does not take it, the commit fails, the session is
  rolled back, and the call returns \<open>False\<close> with the database as before.
\<close>

theorem null_filename_rolls_back:
  "update_record 9 fresh_db (u ''r2'') None
     (Some \<lparr>i_task_id = Some (u ''task_test''),
            generated = [Some (u ''0.png''), None, Some (u ''2.png'')]\<rparr>)
     None None
   = (False, fresh_db)"
  using fresh_db_get
  by (simp add: update_record_def update_session_def set_images_def commit_def Let_def)




section \<open>The order of the scanned file names\<close>

text \<open>
  Claim C8, as stated, fails: with \<open>1000.png\<close> and \<open>abc.png\<close> in the directory, the
  name whose prefix is no integer comes first, before the name with the integer
  prefix 1000.
\<close>

theorem unparseable_before_1000:
  "scan_images [u ''1000.png'', u ''abc.png''] = [u ''abc.png'', u ''1000.png'']
   \<and> py_int (before_first_dot (u ''abc.png'')) = None
   \<and> py_int (before_first_dot (u ''1000.png'')) = Some 1000"
  using get_index_1000 get_index_abc py_int_1000 py_int_abc
  by (simp add: scan_images_def startswith_def endswith_def before_first_dot_def)

text \<open>
  Claim C8, amended. In the order of the scanned file names, a name whose prefix is
  an integer less than 999 comes after names with an integer prefix only: no name
  whose prefix fails to parse stands before it.
\<close>

theorem unparseable_after_small_indices:
  assumes "scan_images listing = before @ b # after"
    and "py_int (before_first_dot b) = Some n"
    and "n < 999"
    and "a \<in> set before"
  shows "py_int (before_first_dot a) \<noteq> None"
proof
  assume unparsed: "py_int (before_first_dot a) = None"
  have "sorted (map get_index (scan_images listing))"
    by (simp add: scan_images_def)
  then have "sorted (map get_index before @ get_index b # map get_index after)"
    using assms(1) by simp
  then have "get_index a \<le> get_index b"
    using assms(4) by (auto simp: sorted_append)
  then show False
    using assms(2,3) unparsed by (simp add: get_index_def)
qed

text \<open>
  Claim C8, amended, at the listing \<open>abc.png\<close>, \<open>0.png\<close>, \<open>1.png\<close>: the scan puts
  \<open>abc.png\<close> last, and the one name before \<open>1.png\<close> parses.
\<close>

theorem unparseable_after_small_indices_witness:
  "scan_images [u ''abc.png'', u ''0.png'', u ''1.png''] = [u ''0.png''] @ u ''1.png'' # [u ''abc.png'']
   \<and> py_int (before_first_dot (u ''1.png'')) = Some 1
   \<and> (1 :: int) < 999
   \<and> u ''0.png'' \<in> set [u ''0.png'']
   \<and> py_int (before_first_dot (u ''0.png'')) \<noteq> None"
proof -
  have sorted: "scan_images [u ''abc.png'', u ''0.png'', u ''1.png'']
                  = [u ''0.png''] @ u ''1.png'' # [u ''abc.png'']"
    using scan_images_abc_0_1 by simp
  have parsed: "py_int (before_first_dot (u ''1.png'')) = Some 1"
    using py_int_1 by (simp add: before_first_dot_def)
  have small: "(1 :: int) < 999"
    by simp
  have mem: "u ''0.png'' \<in> set [u ''0.png'']"
    by simp
  show ?thesis
    using sorted parsed small mem
      unparseable_after_small_indices [OF sorted parsed small mem]
    by simp
qed

text \<open>
  The other side of the key 999: a name whose prefix is an integer greater than 999
  has names with an integer prefix only after it.
\<close>

lemma large_indices_after_unparseable:
  assumes "scan_images listing = before @ b # after"
    and "py_int (before_first_dot b) = Some n"
    and "999 < n"
    and "a \<in> set after"
  shows "py_int (before_first_dot a) \<noteq> None"
proof
  assume unparsed: "py_int (before_first_dot a) = None"
  have "sorted (map get_index (scan_images listing))"
    by (simp add: scan_images_def)
  then have "sorted (map get_index before @ get_index b # map get_index after)"
    using assms(1) by simp
  then have "get_index b \<le> get_index a"
    using assms(4) by (auto simp: sorted_append)
  then show False
    using assms(2,3) unparsed by (simp add: get_index_def)
qed

section \<open>The task directory\<close>

text \<open>
  Claim C9. The reconciler is to reject a task identifier that is \<open>..\<close> or holds a
  path separator before it builds a path from it. The code joins the identifier to the
  history directory as it is: for \<open>..\<close> it lists the directory \<open>/app/history/..\<close>, the
  parent of the history directory, and reports the image file found there; an
  identifier that starts with the separator replaces the history directory altogether.
\<close>

theorem dotdot_is_scanned:
  "os_path_join (u ''/app/history'') (u ''..'') = u ''/app/history/..''
   \<and> os_path_join (u ''/app/history'') (u ''/etc'') = u ''/etc''
   \<and> fst (scan_and_sync_task_images
            (one_dir (u ''/app/history/..'') [u ''history'', u ''config.png''])
            (u ''/app/history'') 9 linked_db (u ''..'')) =
       No_Record (u ''..'') 1 [u ''config.png'']"
  using scan_images_parent
  by (simp add: os_path_join_def scan_and_sync_task_images_def one_dir_def
        query_by_task_id_first_def linked_db_def linked_record_def Let_def)

end
